theory Spec2Isabelle
  imports Main "HOL-Library.Sublist"
begin

section \<open>Python values\<close>

text \<open>
  The client functions exchange decoded JSON with the server. A decoded value is
  \<open>None\<close>, a \<open>bool\<close>, an \<open>int\<close>, a \<open>str\<close>, a \<open>list\<close> or a \<open>dict\<close> with string keys.
  A dict is an association list in insertion order; its keys are distinct, as in a
  decoded JSON object, and \<open>map_of\<close> looks a key up. Numbers are Python's unbounded
  integers: payloads holding a JSON number with a fraction or an exponent are not
  covered. A \<open>char\<close> stands for one code point below 256.
\<close>

datatype json =
    JNull
  | JBool bool
  | JInt int
  | JStr string
  | JArr "json list"
  | JObj "(string \<times> json) list"

text \<open>
  Exceptions. \<open>lib_exc\<close> are the exceptions that the \<open>requests\<close> calls and
  \<open>response.json()\<close> can raise, each with the text that \<open>str(e)\<close> gives:
  \<open>HTTPError\<close>, \<open>ConnectionError\<close>, \<open>Timeout\<close> derive from \<open>RequestException\<close>;
  \<open>ConnectTimeout\<close> derives from both \<open>ConnectionError\<close> and \<open>Timeout\<close>;
  \<open>RequestsJSONDecodeError\<close> is \<open>requests.exceptions.JSONDecodeError\<close>, which derives
  from both \<open>RequestException\<close> and \<open>json.JSONDecodeError\<close>; \<open>JSONDecodeError\<close> is
  \<open>json.JSONDecodeError\<close> itself; \<open>OtherException\<close> is any other subclass of
  \<open>Exception\<close>.
\<close>

datatype lib_exc =
    RequestException string
  | HTTPError string
  | ConnectionError string
  | ConnectTimeout string
  | Timeout string
  | RequestsJSONDecodeError string
  | JSONDecodeError string
  | OtherException string

datatype arg = AInt int | AStr string

datatype exc =
    ValueError "arg list"
  | KeyError string
  | TypeError
  | AttributeError
  | ZeroDivisionError
  | OverflowError
  | Raised lib_exc

abbreviation nl :: string where
  "nl \<equiv> [CHR 0x0A]"

subsection \<open>Truth value, \<open>dict.get\<close>, iteration\<close>

fun truthy :: "json \<Rightarrow> bool" where
  "truthy JNull = False"
| "truthy (JBool b) = b"
| "truthy (JInt n) = (n \<noteq> 0)"
| "truthy (JStr s) = (s \<noteq> [])"
| "truthy (JArr xs) = (xs \<noteq> [])"
| "truthy (JObj kvs) = (kvs \<noteq> [])"

text \<open>\<open>x.get(k, dflt)\<close>: only a dict has the method.\<close>

fun py_get :: "json \<Rightarrow> string \<Rightarrow> json \<Rightarrow> exc + json" where
  "py_get (JObj kvs) k dflt = Inr (case map_of kvs k of None \<Rightarrow> dflt | Some v \<Rightarrow> v)"
| "py_get _ k dflt = Inl AttributeError"

text \<open>The elements a \<open>for\<close> loop or \<open>sorted\<close> takes from a value.\<close>

fun py_iter :: "json \<Rightarrow> exc + json list" where
  "py_iter (JArr xs) = Inr xs"
| "py_iter (JObj kvs) = Inr (map (\<lambda>kv. JStr (fst kv)) kvs)"
| "py_iter (JStr s) = Inr (map (\<lambda>c. JStr [c]) s)"
| "py_iter _ = Inl TypeError"

text \<open>The integer a value counts as in arithmetic (\<open>True\<close> is 1, \<open>False\<close> is 0).\<close>

fun num_of :: "json \<Rightarrow> int option" where
  "num_of (JInt n) = Some n"
| "num_of (JBool b) = Some (if b then 1 else 0)"
| "num_of _ = None"

subsection \<open>\<open>str\<close> and \<open>repr\<close>\<close>

fun str_of_nat :: "nat \<Rightarrow> string" where
  "str_of_nat n =
     (if n < 10 then [''0123456789'' ! n]
      else str_of_nat (n div 10) @ [''0123456789'' ! (n mod 10)])"

declare str_of_nat.simps [simp del]

definition str_of_int :: "int \<Rightarrow> string" where
  "str_of_int i = (if i < 0 then ''-'' @ str_of_nat (nat (- i)) else str_of_nat (nat i))"

text \<open>
  The interpreter refuses to convert an \<open>int\<close> of more than 4300 decimal digits, the sign
  not counted, to a \<open>str\<close>: \<open>str(i)\<close> and an f-string field \<open>{i}\<close> raise \<open>ValueError\<close>. 4300
  is the default of the limit. \<open>int_to_str\<close> is the conversion with the limit; the client
  functions apply it to the identifier that their caller passes. The formatter and the
  status line are modelled with \<open>str_of_int\<close>, the conversion without the limit: a status
  code has three digits, the integers of a payload were decoded under the same limit,
  and a sum of counts that passes the limit is not covered.
\<close>

definition max_str_digits :: nat where
  "max_str_digits = 4300"

definition within_str_limit :: "int \<Rightarrow> bool" where
  "within_str_limit i = (length (str_of_nat (nat \<bar>i\<bar>)) \<le> max_str_digits)"

definition int_to_str :: "int \<Rightarrow> exc + string" where
  "int_to_str i =
     (if within_str_limit i then Inr (str_of_int i)
      else Inl (ValueError [AStr (''Exceeds the limit (4300 digits) for integer string conversion; ''
             @ ''use sys.set_int_max_str_digits() to increase the limit'')]))"

definition hex2 :: "nat \<Rightarrow> string" where
  "hex2 n = [''0123456789abcdef'' ! (n div 16), ''0123456789abcdef'' ! (n mod 16)]"

definition printable :: "char \<Rightarrow> bool" where
  "printable c = (let n = (of_char c :: nat) in (32 \<le> n \<and> n < 127) \<or> (161 \<le> n \<and> n \<noteq> 173))"

definition repr_char :: "char \<Rightarrow> char \<Rightarrow> string" where
  "repr_char quote c =
     (if c = quote \<or> c = CHR 0x5C then [CHR 0x5C, c]
      else if c = CHR 0x09 then [CHR 0x5C, CHR ''t'']
      else if c = CHR 0x0A then [CHR 0x5C, CHR ''n'']
      else if c = CHR 0x0D then [CHR 0x5C, CHR ''r'']
      else if printable c then [c]
      else [CHR 0x5C, CHR ''x''] @ hex2 (of_char c))"

definition repr_str :: "string \<Rightarrow> string" where
  "repr_str s =
     (let quote = (if CHR 0x27 \<in> set s \<and> CHR 0x22 \<notin> set s then CHR 0x22 else CHR 0x27)
      in [quote] @ concat (map (repr_char quote) s) @ [quote])"

fun join :: "string \<Rightarrow> string list \<Rightarrow> string" where
  "join sep [] = []"
| "join sep [x] = x"
| "join sep (x # y # ys) = x @ sep @ join sep (y # ys)"

fun py_repr :: "json \<Rightarrow> string" where
  "py_repr JNull = ''None''"
| "py_repr (JBool b) = (if b then ''True'' else ''False'')"
| "py_repr (JInt n) = str_of_int n"
| "py_repr (JStr s) = repr_str s"
| "py_repr (JArr xs) = ''['' @ join '', '' (map py_repr xs) @ '']''"
| "py_repr (JObj kvs) =
     ''{'' @ join '', '' (map (\<lambda>kv. repr_str (fst kv) @ '': '' @ py_repr (snd kv)) kvs) @ ''}''"

text \<open>\<open>str(x)\<close>, which is also what an f-string field without a format gives.\<close>

fun py_str :: "json \<Rightarrow> string" where
  "py_str (JStr s) = s"
| "py_str v = py_repr v"

section \<open>Floating point\<close>

text \<open>
  A Python \<open>float\<close> is an IEEE 754 binary64 number. The model keeps a finite one as its
  sign and its magnitude \<open>m * 2 ^ p\<close> with a natural \<open>m\<close> and an integer \<open>p\<close>, so that
  all arithmetic on it is exact integer arithmetic, and an infinite one as its sign.
  No operation below produces a NaN.
\<close>

datatype pyfloat = Finite bool nat int | Infinite bool

fun bit_length :: "nat \<Rightarrow> nat" where
  "bit_length n = (if n = 0 then 0 else Suc (bit_length (n div 2)))"

declare bit_length.simps [simp del]

text \<open>The quotient \<open>a / b\<close> rounded to the nearest integer, a tie to the even one.\<close>

definition rhe_div :: "nat \<Rightarrow> nat \<Rightarrow> nat" where
  "rhe_div a b =
     (let q = a div b; r = a mod b
      in if 2 * r < b then q
         else if b < 2 * r then q + 1
         else if even q then q else q + 1)"

text \<open>\<open>\<lfloor>log\<^sub>2 (a / b)\<rfloor>\<close> for positive \<open>a\<close> and \<open>b\<close>.\<close>

definition floor_log2 :: "nat \<Rightarrow> nat \<Rightarrow> int" where
  "floor_log2 a b =
     (let d = int (bit_length a) - int (bit_length b)
      in if (if 0 \<le> d then b * 2 ^ nat d \<le> a else b \<le> a * 2 ^ nat (- d)) then d else d - 1)"

text \<open>
  The binary64 number nearest to the positive rational \<open>a / b\<close>, a tie to the one with
  the even significand, before any check of the range: a significand of 53 bits, the unit
  in the last place never below \<open>2 ^ - 1074\<close> (the subnormal numbers).
\<close>

definition round_double :: "nat \<Rightarrow> nat \<Rightarrow> nat \<times> int" where
  "round_double a b =
     (if a = 0 then (0, 0)
      else let p = max (floor_log2 a b - 52) (- 1074)
           in (if 0 \<le> p then rhe_div a (b * 2 ^ nat p) else rhe_div (a * 2 ^ nat (- p)) b, p))"

text \<open>\<open>m * 2 ^ p\<close> is \<open>2 ^ 1024\<close> or more: beyond the largest finite binary64 number.\<close>

definition overflows :: "nat \<Rightarrow> int \<Rightarrow> bool" where
  "overflows m p = (m \<noteq> 0 \<and> (1024 \<le> p \<or> 2 ^ nat (1024 - p) \<le> m))"

text \<open>
  \<open>a / b\<close> on two \<open>int\<close>s: the correctly rounded quotient, \<open>ZeroDivisionError\<close> for a zero
  divisor, \<open>OverflowError\<close> when the rounded quotient is out of range. The sign of a zero
  quotient is the exclusive or of the operands' signs.
\<close>

definition int_truediv :: "int \<Rightarrow> int \<Rightarrow> exc + pyfloat" where
  "int_truediv a b =
     (if b = 0 then Inl ZeroDivisionError
      else let neg = ((a < 0) \<noteq> (b < 0));
               mp = round_double (nat \<bar>a\<bar>) (nat \<bar>b\<bar>)
           in if overflows (fst mp) (snd mp) then Inl OverflowError
              else Inr (Finite neg (fst mp) (snd mp)))"

text \<open>
  \<open>x * n\<close> for a float \<open>x\<close> and a positive \<open>int\<close> \<open>n\<close> that is a binary64 number itself
  (such as 100): the exact product, rounded; out of range it is an infinity.
\<close>

fun float_mul_nat :: "pyfloat \<Rightarrow> nat \<Rightarrow> pyfloat" where
  "float_mul_nat (Infinite s) n = Infinite s"
| "float_mul_nat (Finite s m p) n =
     (let mp = (if 0 \<le> p then round_double (m * n * 2 ^ nat p) 1
                else round_double (m * n) (2 ^ nat (- p)))
      in if overflows (fst mp) (snd mp) then Infinite s else Finite s (fst mp) (snd mp))"

text \<open>
  The format \<open>.1f\<close>: the exact value rounded to one decimal, a tie to the even digit,
  with the sign of the float (also on a zero).
\<close>

fun format_1f :: "pyfloat \<Rightarrow> string" where
  "format_1f (Infinite s) = (if s then ''-inf'' else ''inf'')"
| "format_1f (Finite s m p) =
     (let tenths = (if 0 \<le> p then m * 10 * 2 ^ nat p else rhe_div (m * 10) (2 ^ nat (- p)))
      in (if s then ''-'' else []) @ str_of_nat (tenths div 10) @ ''.'' @ str_of_nat (tenths mod 10))"

section \<open>Formatting poll results (\<open>get_poll_results.py\<close>)\<close>

text \<open>\<open>vote_count / total_votes\<close> on the value stored under \<open>vote_count\<close>.\<close>

definition py_truediv :: "json \<Rightarrow> int \<Rightarrow> exc + pyfloat" where
  "py_truediv v total_votes =
     (case num_of v of None \<Rightarrow> Inl TypeError | Some n \<Rightarrow> int_truediv n total_votes)"

text \<open>
  \<open>percentage = (vote_count / total_votes * 100) if total_votes > 0 else 0\<close>. The \<open>int\<close> 0
  of the second branch is formatted with \<open>.1f\<close> as the float \<open>0.0\<close>.
\<close>

definition percentage :: "json \<Rightarrow> int \<Rightarrow> exc + pyfloat" where
  "percentage vote_count total_votes =
     (if total_votes > 0 then
        (case py_truediv vote_count total_votes of
           Inl e \<Rightarrow> Inl e
         | Inr q \<Rightarrow> Inr (float_mul_nat q 100))
      else Inr (Finite False 0 0))"

text \<open>
  The key function of the sort, \<open>lambda x: x.get("vote_count", 0)\<close>, on every element.
\<close>

fun vote_counts :: "json list \<Rightarrow> exc + json list" where
  "vote_counts [] = Inr []"
| "vote_counts (x # xs) =
     (case py_get x ''vote_count'' (JInt 0) of
        Inl e \<Rightarrow> Inl e
      | Inr k \<Rightarrow> (case vote_counts xs of Inl e \<Rightarrow> Inl e | Inr ks \<Rightarrow> Inr (k # ks)))"

definition vote_key :: "json \<Rightarrow> int" where
  "vote_key x =
     (case py_get x ''vote_count'' (JInt 0) of
        Inl e \<Rightarrow> 0
      | Inr k \<Rightarrow> (case num_of k of None \<Rightarrow> 0 | Some n \<Rightarrow> n))"

text \<open>
  \<open>sorted(xs, key=f, reverse=True)\<close> on integer keys: the list is reversed, sorted
  by a stable ascending sort, and reversed again.
\<close>

definition sorted_reverse :: "('a \<Rightarrow> int) \<Rightarrow> 'a list \<Rightarrow> 'a list" where
  "sorted_reverse f xs = rev (sort_key f (rev xs))"

text \<open>
  \<open>sorted(results, key=lambda x: x.get("vote_count", 0), reverse=True)\<close>. The keys of all
  elements are computed first. When a key is not a number, this model raises \<open>TypeError\<close>
  at once: in the source either a comparison inside \<open>sorted\<close> raises it, or the addition
  \<open>0 + key\<close> inside the \<open>sum\<close> of the next statement does, and nothing is observable in
  between.
\<close>

definition sorted_by_votes :: "json \<Rightarrow> exc + json list" where
  "sorted_by_votes results =
     (case py_iter results of
        Inl e \<Rightarrow> Inl e
      | Inr xs \<Rightarrow>
          (case vote_counts xs of
             Inl e \<Rightarrow> Inl e
           | Inr ks \<Rightarrow>
               if list_all (\<lambda>k. num_of k \<noteq> None) ks then Inr (sorted_reverse vote_key xs)
               else Inl TypeError))"

text \<open>\<open>sum(result.get("vote_count", 0) for result in sorted_results)\<close>, from the start value 0.\<close>

fun sum_votes :: "json list \<Rightarrow> int \<Rightarrow> exc + int" where
  "sum_votes [] acc = Inr acc"
| "sum_votes (x # xs) acc =
     (case py_get x ''vote_count'' (JInt 0) of
        Inl e \<Rightarrow> Inl e
      | Inr k \<Rightarrow> (case num_of k of None \<Rightarrow> Inl TypeError | Some n \<Rightarrow> sum_votes xs (acc + n)))"

text \<open>One pass of the loop body: the three lines appended for an option.\<close>

definition option_block :: "int \<Rightarrow> nat \<Rightarrow> json \<Rightarrow> exc + string" where
  "option_block total_votes i result =
     (case py_get result ''option_id'' (JStr ''Unknown'') of Inl e \<Rightarrow> Inl e | Inr option_id \<Rightarrow>
      case py_get result ''text'' (JStr ''Unknown option'') of Inl e \<Rightarrow> Inl e | Inr text \<Rightarrow>
      case py_get result ''vote_count'' (JInt 0) of Inl e \<Rightarrow> Inl e | Inr vote_count \<Rightarrow>
      case percentage vote_count total_votes of Inl e \<Rightarrow> Inl e | Inr pct \<Rightarrow>
        Inr (str_of_nat i @ ''. '' @ py_str text @ nl
             @ ''   Votes: '' @ py_str vote_count @ '' ('' @ format_1f pct @ ''%)'' @ nl
             @ ''   Option ID: '' @ py_str option_id @ nl @ nl))"

text \<open>\<open>for i, result in enumerate(sorted_results, 1): output += ...\<close>\<close>

fun render_options :: "int \<Rightarrow> nat \<Rightarrow> json list \<Rightarrow> string \<Rightarrow> exc + string" where
  "render_options total_votes i [] output = Inr output"
| "render_options total_votes i (result # rest) output =
     (case option_block total_votes i result of
        Inl e \<Rightarrow> Inl e
      | Inr block \<Rightarrow> render_options total_votes (Suc i) rest (output @ block))"

text \<open>The header line and its underline, as the first two statements build them.\<close>

definition header :: "json \<Rightarrow> json \<Rightarrow> string" where
  "header poll_id question =
     (let output = ''Poll #'' @ py_str poll_id @ '': '' @ py_str question @ nl
      in output @ replicate (length output - 1) (CHR ''='') @ nl @ nl)"

definition format_poll_results :: "json \<Rightarrow> exc + string" where
  "format_poll_results results_data =
     (if \<not> truthy results_data then Inr ''No results data available''
      else
        case py_get results_data ''poll_id'' (JStr ''Unknown'') of Inl e \<Rightarrow> Inl e | Inr poll_id \<Rightarrow>
        case py_get results_data ''question'' (JStr ''Unknown question'') of Inl e \<Rightarrow> Inl e | Inr question \<Rightarrow>
        case py_get results_data ''results'' (JArr []) of Inl e \<Rightarrow> Inl e | Inr results \<Rightarrow>
          let output = header poll_id question
          in if \<not> truthy results then Inr (output @ ''No votes cast yet.'' @ nl)
             else
               case sorted_by_votes results of Inl e \<Rightarrow> Inl e | Inr sorted_results \<Rightarrow>
               case sum_votes sorted_results 0 of Inl e \<Rightarrow> Inl e | Inr total_votes \<Rightarrow>
                 render_options total_votes 1 sorted_results
                   (output @ ''Total votes: '' @ str_of_int total_votes @ nl @ nl))"

section \<open>The HTTP transport\<close>

text \<open>
  What a call of \<open>requests.get\<close> or \<open>requests.post\<close> is given, and what it gives back.
  A \<open>response\<close> holds the status code, the reason phrase, the final URL, and what
  \<open>response.json()\<close> does: it returns the decoded body or raises.
\<close>

datatype http_request =
    Get string "(string \<times> json) list"
  | Post_json string "(string \<times> json) list" "(string \<times> string) list"
  | Post_data string "(string \<times> json) list"

record response =
  status_code :: int
  reason :: string
  resp_url :: string
  body_json :: "lib_exc + json"

text \<open>
  The server and the network are a function from the request to the outcome of the call.
  Every client function returns, beside its result (\<open>Inl\<close> an exception raised to the
  caller), the trace of what it did: the requests it sent and the payloads it handed
  to the formatter.
\<close>

type_synonym network = "http_request \<Rightarrow> lib_exc + response"

datatype event = Sent http_request | Formatted json

definition send :: "network \<Rightarrow> http_request \<Rightarrow> exc + response" where
  "send net req = (case net req of Inl e \<Rightarrow> Inl (Raised e) | Inr response \<Rightarrow> Inr response)"

definition response_json :: "response \<Rightarrow> exc + json" where
  "response_json response = (case body_json response of Inl e \<Rightarrow> Inl (Raised e) | Inr v \<Rightarrow> Inr v)"

text \<open>\<open>response.raise_for_status()\<close> raises \<open>HTTPError\<close> for the codes 400 to 599 only.\<close>

definition raise_for_status :: "response \<Rightarrow> exc + unit" where
  "raise_for_status response =
     (if 400 \<le> status_code response \<and> status_code response < 500 then
        Inl (Raised (HTTPError (str_of_int (status_code response) @ '' Client Error: ''
          @ reason response @ '' for url: '' @ resp_url response)))
      else if 500 \<le> status_code response \<and> status_code response < 600 then
        Inl (Raised (HTTPError (str_of_int (status_code response) @ '' Server Error: ''
          @ reason response @ '' for url: '' @ resp_url response)))
      else Inr ())"

fun exc_str :: "lib_exc \<Rightarrow> string" where
  "exc_str (RequestException m) = m"
| "exc_str (HTTPError m) = m"
| "exc_str (ConnectionError m) = m"
| "exc_str (ConnectTimeout m) = m"
| "exc_str (Timeout m) = m"
| "exc_str (RequestsJSONDecodeError m) = m"
| "exc_str (JSONDecodeError m) = m"
| "exc_str (OtherException m) = m"

fun is_RequestException :: "lib_exc \<Rightarrow> bool" where
  "is_RequestException (JSONDecodeError m) = False"
| "is_RequestException (OtherException m) = False"
| "is_RequestException _ = True"

fun is_ConnectionError :: "lib_exc \<Rightarrow> bool" where
  "is_ConnectionError (ConnectionError m) = True"
| "is_ConnectionError (ConnectTimeout m) = True"
| "is_ConnectionError _ = False"

fun is_Timeout :: "lib_exc \<Rightarrow> bool" where
  "is_Timeout (Timeout m) = True"
| "is_Timeout (ConnectTimeout m) = True"
| "is_Timeout _ = False"

fun is_JSONDecodeError :: "lib_exc \<Rightarrow> bool" where
  "is_JSONDecodeError (JSONDecodeError m) = True"
| "is_JSONDecodeError (RequestsJSONDecodeError m) = True"
| "is_JSONDecodeError _ = False"

text \<open>
  \<open>except requests.exceptions.RequestException as e: raise
  requests.exceptions.RequestException(msg(e))\<close>; any other exception passes through.
\<close>

definition reraise_request_exception :: "(lib_exc \<Rightarrow> string) \<Rightarrow> exc \<Rightarrow> exc" where
  "reraise_request_exception msg e =
     (case e of
        Raised le \<Rightarrow> if is_RequestException le then Raised (RequestException (msg le)) else e
      | _ \<Rightarrow> e)"

text \<open>\<open>obj[key]\<close> with a string key.\<close>

fun py_getitem :: "json \<Rightarrow> string \<Rightarrow> exc + json" where
  "py_getitem (JObj kvs) k = (case map_of kvs k of None \<Rightarrow> Inl (KeyError k) | Some v \<Rightarrow> Inr v)"
| "py_getitem _ k = Inl TypeError"

section \<open>The client functions\<close>

subsection \<open>\<open>fetch_polls.py\<close>\<close>

definition fetch_polls :: "int \<Rightarrow> int \<Rightarrow> string \<Rightarrow> network \<Rightarrow> (exc + json) \<times> event list" where
  "fetch_polls skip limit base_url net =
     (let url = base_url @ ''/polls''
      in if skip < 0 then (Inl (ValueError [AInt 400, AStr ''Skip parameter must be non-negative'']), [])
         else if limit \<le> 0 then (Inl (ValueError [AInt 400, AStr ''Limit parameter must be positive'']), [])
         else
           let params = [(''skip'', JInt skip), (''limit'', JInt limit)];
               body =
                 (case send net (Get url params) of
                    Inl e \<Rightarrow> Inl e
                  | Inr response \<Rightarrow>
                      if status_code response = 200 then response_json response
                      else (case raise_for_status response of Inl e \<Rightarrow> Inl e | Inr u \<Rightarrow> Inr JNull))
           in (case body of
                 Inl e \<Rightarrow> Inl (reraise_request_exception (\<lambda>e. ''Failed to fetch polls'') e)
               | Inr v \<Rightarrow> Inr v,
               [Sent (Get url params)]))"

subsection \<open>\<open>get_poll_results.py\<close>\<close>

definition get_poll_results :: "int \<Rightarrow> string \<Rightarrow> network \<Rightarrow> (exc + json) \<times> event list" where
  "get_poll_results poll_id base_url net =
     (case int_to_str poll_id of
        Inl e \<Rightarrow> (Inl e, [])
      | Inr poll_id_str \<Rightarrow>
          let url = base_url @ ''/polls/'' @ poll_id_str @ ''/results''
          in if poll_id = 0 \<or> poll_id \<le> 0 then
               (Inl (ValueError [AStr ''Poll ID must be a positive integer'']), [])
             else
               let body =
                     (case send net (Get url []) of
                        Inl e \<Rightarrow> Inl e
                      | Inr response \<Rightarrow>
                          if status_code response = 200 then response_json response
                          else if status_code response = 404 then
                            Inl (ValueError [AStr ''Poll not found''])
                          else (case raise_for_status response of
                                  Inl e \<Rightarrow> Inl e
                                | Inr u \<Rightarrow> Inr JNull))
               in (case body of
                     Inl e \<Rightarrow>
                       Inl (reraise_request_exception
                              (\<lambda>e. ''Failed to get poll results: '' @ exc_str e) e)
                   | Inr v \<Rightarrow> Inr v,
                   [Sent (Get url [])]))"

text \<open>
  The body of the \<open>try\<close> of \<open>get_poll_results_with_error_handling\<close>. Only the call of
  \<open>requests.get\<close> and the first \<open>response.json()\<close> can raise out of it; the second
  \<open>response.json()\<close> is under a bare \<open>except: pass\<close>.
\<close>

definition error_handling_body :: "network \<Rightarrow> string \<Rightarrow> lib_exc + bool \<times> json \<times> json" where
  "error_handling_body net url =
     (case net (Get url []) of
        Inl e \<Rightarrow> Inl e
      | Inr response \<Rightarrow>
          if status_code response = 200 then
            (case body_json response of
               Inl e \<Rightarrow> Inl e
             | Inr results_data \<Rightarrow> Inr (True, results_data, JNull))
          else if status_code response = 404 then Inr (False, JNull, JStr ''Poll not found'')
          else
            let error_message =
                  JStr (''HTTP '' @ str_of_int (status_code response) @ '': '' @ reason response);
                error_message =
                  (case body_json response of
                     Inl e \<Rightarrow> error_message
                   | Inr error_detail \<Rightarrow>
                       (case error_detail of
                          JObj kvs \<Rightarrow>
                            (case map_of kvs ''detail'' of
                               None \<Rightarrow> error_message
                             | Some detail \<Rightarrow> detail)
                        | _ \<Rightarrow> error_message))
            in Inr (False, JNull, error_message))"

text \<open>The \<open>except\<close> clauses, in the order of the source; the last one takes every exception.\<close>

definition error_handling_except :: "lib_exc \<Rightarrow> exc + bool \<times> json \<times> json" where
  "error_handling_except e =
     (if is_ConnectionError e then
        Inr (False, JNull, JStr ''Connection error: Could not connect to the server'')
      else if is_Timeout e then
        Inr (False, JNull, JStr ''Request timeout: Server took too long to respond'')
      else if is_RequestException e then
        Inr (False, JNull, JStr (''Request error: '' @ exc_str e))
      else if is_JSONDecodeError e then
        Inr (False, JNull, JStr ''Invalid JSON response from server'')
      else Inr (False, JNull, JStr (''Unexpected error: '' @ exc_str e)))"

definition get_poll_results_with_error_handling ::
  "int \<Rightarrow> string \<Rightarrow> network \<Rightarrow> (exc + bool \<times> json \<times> json) \<times> event list" where
  "get_poll_results_with_error_handling poll_id base_url net =
     (case int_to_str poll_id of
        Inl e \<Rightarrow> (Inl e, [])
      | Inr poll_id_str \<Rightarrow>
          let url = base_url @ ''/polls/'' @ poll_id_str @ ''/results''
          in if poll_id = 0 \<or> poll_id \<le> 0 then
               (Inr (False, JNull, JStr ''Poll ID must be a positive integer''), [])
             else
               (case error_handling_body net url of
                  Inl e \<Rightarrow> error_handling_except e
                | Inr r \<Rightarrow> Inr r,
                [Sent (Get url [])]))"

definition get_poll_results_summary :: "int \<Rightarrow> string \<Rightarrow> network \<Rightarrow> (exc + string) \<times> event list" where
  "get_poll_results_summary poll_id base_url net =
     (case get_poll_results poll_id base_url net of
        (Inl e, trace) \<Rightarrow> (Inl e, trace)
      | (Inr results_data, trace) \<Rightarrow> (format_poll_results results_data, trace @ [Formatted results_data]))"

subsection \<open>\<open>vote_poll.py\<close>\<close>

definition vote_on_poll :: "int \<Rightarrow> int \<Rightarrow> string \<Rightarrow> string \<Rightarrow> network \<Rightarrow> (exc + json) \<times> event list" where
  "vote_on_poll poll_id option_id access_token base_url net =
     (case int_to_str poll_id of
        Inl e \<Rightarrow> (Inl e, [])
      | Inr poll_id_str \<Rightarrow>
          let url = base_url @ ''/polls/'' @ poll_id_str @ ''/vote''
          in if poll_id = 0 \<or> poll_id \<le> 0 then
               (Inl (ValueError [AStr ''Poll ID must be a positive integer'']), [])
             else if option_id = 0 \<or> option_id \<le> 0 then
               (Inl (ValueError [AStr ''Option ID must be a positive integer'']), [])
             else if access_token = [] then
               (Inl (ValueError [AStr ''Access token is required for voting'']), [])
             else
               let payload = [(''option_id'', JInt option_id)];
                   headers = [(''Content-Type'', ''application/json''),
                              (''Authorization'', ''Bearer '' @ access_token)];
                   body =
                     (case send net (Post_json url payload headers) of
                        Inl e \<Rightarrow> Inl e
                      | Inr response \<Rightarrow>
                          if status_code response = 200 then response_json response
                          else if status_code response = 401 then
                            Inl (ValueError [AStr ''Unauthorized: Invalid or expired access token''])
                          else if status_code response = 404 then
                            Inl (ValueError [AStr ''Poll or option not found''])
                          else (case raise_for_status response of Inl e \<Rightarrow> Inl e | Inr u \<Rightarrow> Inr JNull))
               in (case body of
                     Inl e \<Rightarrow> Inl (reraise_request_exception (\<lambda>e. ''Failed to vote on poll: '' @ exc_str e) e)
                   | Inr v \<Rightarrow> Inr v,
                   [Sent (Post_json url payload headers)]))"

definition login_and_get_token :: "string \<Rightarrow> string \<Rightarrow> string \<Rightarrow> network \<Rightarrow> (exc + json) \<times> event list" where
  "login_and_get_token username password base_url net =
     (let url = base_url @ ''/login'';
          form_data = [(''username'', JStr username), (''password'', JStr password)];
          body =
            (case send net (Post_data url form_data) of
               Inl e \<Rightarrow> Inl e
             | Inr response \<Rightarrow>
                 if status_code response = 200 then
                   (case response_json response of
                      Inl e \<Rightarrow> Inl e
                    | Inr token_data \<Rightarrow> py_getitem token_data ''access_token'')
                 else if status_code response = 400 then
                   Inl (ValueError [AStr ''Incorrect username or password''])
                 else (case raise_for_status response of Inl e \<Rightarrow> Inl e | Inr u \<Rightarrow> Inr JNull))
      in (case body of
            Inl e \<Rightarrow> Inl (reraise_request_exception (\<lambda>e. ''Failed to login: '' @ exc_str e) e)
          | Inr v \<Rightarrow> Inr v,
          [Sent (Post_data url form_data)]))"

subsection \<open>\<open>register_user.py\<close>\<close>

definition register_user :: "string \<Rightarrow> string \<Rightarrow> string \<Rightarrow> network \<Rightarrow> (exc + json) \<times> event list" where
  "register_user username password base_url net =
     (let url = base_url @ ''/register''
      in if username = [] \<or> password = [] then
           (Inl (ValueError [AInt 400, AStr ''Username and password are required'']), [])
         else
           let payload = [(''username'', JStr username), (''password'', JStr password)];
               headers = [(''Content-Type'', ''application/json'')]
           in (case send net (Post_json url payload headers) of
                 Inl e \<Rightarrow> Inl e
               | Inr response \<Rightarrow>
                   if status_code response = 200 then response_json response
                   else if status_code response = 400 then
                     Inl (ValueError [AInt 400, AStr ''Username already registered''])
                   else (case raise_for_status response of Inl e \<Rightarrow> Inl e | Inr u \<Rightarrow> Inr JNull),
               [Sent (Post_json url payload headers)]))"

section \<open>Payloads of the documented schema\<close>

text \<open>
  The poll results payload as the API documents it: a poll identifier, a question and
  a list of tallies, each an option identifier, a label and a vote count. Any key may be
  missing. \<open>json_of_report\<close> is the dict that the formatter receives for such a payload.
\<close>

record option_tally =
  tally_option_id :: "int option"
  tally_text :: "string option"
  tally_vote_count :: "int option"

record poll_results_report =
  report_poll_id :: "int option"
  report_question :: "string option"
  report_results :: "option_tally list option"

fun opt_field :: "string \<Rightarrow> ('a \<Rightarrow> json) \<Rightarrow> 'a option \<Rightarrow> (string \<times> json) list" where
  "opt_field k f None = []"
| "opt_field k f (Some v) = [(k, f v)]"

definition json_of_tally :: "option_tally \<Rightarrow> json" where
  "json_of_tally t =
     JObj (opt_field ''option_id'' JInt (tally_option_id t)
           @ opt_field ''text'' JStr (tally_text t)
           @ opt_field ''vote_count'' JInt (tally_vote_count t))"

definition json_of_report :: "poll_results_report \<Rightarrow> json" where
  "json_of_report r =
     JObj (opt_field ''poll_id'' JInt (report_poll_id r)
           @ opt_field ''question'' JStr (report_question r)
           @ opt_field ''results'' (\<lambda>ts. JArr (map json_of_tally ts)) (report_results r))"

text \<open>The vote count of a tally, a missing one counting as zero.\<close>

definition votes :: "option_tally \<Rightarrow> int" where
  "votes t = (case tally_vote_count t of None \<Rightarrow> 0 | Some n \<Rightarrow> n)"

text \<open>The header that the formatter prints for a payload of the schema.\<close>

definition report_header :: "poll_results_report \<Rightarrow> string" where
  "report_header r =
     header (case report_poll_id r of None \<Rightarrow> JStr ''Unknown'' | Some n \<Rightarrow> JInt n)
            (case report_question r of None \<Rightarrow> JStr ''Unknown question'' | Some q \<Rightarrow> JStr q)"

text \<open>A server that answers every request with the same response.\<close>

definition const_server :: "response \<Rightarrow> network" where
  "const_server response req = Inr response"

text \<open>A server that cannot be reached: every call of the transport raises \<open>e\<close>.\<close>

definition unreachable_server :: "lib_exc \<Rightarrow> network" where
  "unreachable_server e req = Inl e"

text \<open>The block that the formatter prints for a tally at rank \<open>i\<close> with the percentage \<open>pct\<close>.\<close>

definition tally_block :: "nat \<Rightarrow> option_tally \<Rightarrow> pyfloat \<Rightarrow> string" where
  "tally_block i t pct =
     str_of_nat i @ ''. '' @ (case tally_text t of None \<Rightarrow> ''Unknown option'' | Some s \<Rightarrow> s) @ nl
     @ ''   Votes: '' @ str_of_int (votes t) @ '' ('' @ format_1f pct @ ''%)'' @ nl
     @ ''   Option ID: ''
     @ (case tally_option_id t of None \<Rightarrow> ''Unknown'' | Some n \<Rightarrow> str_of_int n) @ nl @ nl"

section \<open>The formatter on payloads of the schema\<close>

subsection \<open>The sort\<close>

lemma insort_key_map: "insort_key f (g x) (map g xs) = map g (insort_key (\<lambda>y. f (g y)) x xs)"
  by (induction xs) simp_all

lemma sort_key_map: "sort_key f (map g xs) = map g (sort_key (\<lambda>y. f (g y)) xs)"
  by (induction xs) (simp_all add: insort_key_map)

lemma sorted_reverse_map: "sorted_reverse f (map g xs) = map g (sorted_reverse (\<lambda>y. f (g y)) xs)"
  by (simp add: sorted_reverse_def sort_key_map rev_map)

lemma sum_list_insort_key: "sum_list (map h (insort_key f x xs)) = h x + sum_list (map h xs)"
  for h :: "'a \<Rightarrow> int"
  by (induction xs) simp_all

lemma sum_list_sort_key: "sum_list (map h (sort_key f xs)) = sum_list (map h xs)"
  for h :: "'a \<Rightarrow> int"
  by (induction xs) (simp_all add: sum_list_insort_key)

lemma sum_list_sorted_reverse: "sum_list (map h (sorted_reverse f xs)) = sum_list (map h xs)"
  for h :: "'a \<Rightarrow> int"
  by (simp add: sorted_reverse_def sum_list_sort_key flip: rev_map)


lemma length_sorted_reverse: "length (sorted_reverse f xs) = length xs"
  by (simp add: sorted_reverse_def)



subsection \<open>Reading a payload of the schema\<close>

lemma py_get_vote_count: "py_get (json_of_tally t) ''vote_count'' (JInt 0) = Inr (JInt (votes t))"
  by (cases "tally_option_id t"; cases "tally_text t"; cases "tally_vote_count t";
      simp add: json_of_tally_def votes_def)

lemma py_get_option_id:
  "py_get (json_of_tally t) ''option_id'' (JStr ''Unknown'') =
     Inr (case tally_option_id t of None \<Rightarrow> JStr ''Unknown'' | Some n \<Rightarrow> JInt n)"
  by (cases "tally_option_id t"; cases "tally_text t"; cases "tally_vote_count t";
      simp add: json_of_tally_def)

lemma py_get_text:
  "py_get (json_of_tally t) ''text'' (JStr ''Unknown option'') =
     Inr (case tally_text t of None \<Rightarrow> JStr ''Unknown option'' | Some s \<Rightarrow> JStr s)"
  by (cases "tally_option_id t"; cases "tally_text t"; cases "tally_vote_count t";
      simp add: json_of_tally_def)

lemma vote_key_tally: "vote_key (json_of_tally t) = votes t"
  by (simp add: vote_key_def py_get_vote_count)

lemma vote_counts_tallies: "vote_counts (map json_of_tally ts) = Inr (map (\<lambda>t. JInt (votes t)) ts)"
  by (induction ts) (simp_all add: py_get_vote_count)

lemma sum_votes_tallies: "sum_votes (map json_of_tally ts) acc = Inr (acc + sum_list (map votes ts))"
  by (induction ts arbitrary: acc) (simp_all add: py_get_vote_count)

lemma sorted_by_votes_tallies:
  "sorted_by_votes (JArr (map json_of_tally ts)) = Inr (map json_of_tally (sorted_reverse votes ts))"
proof -
  have "sorted_reverse vote_key (map json_of_tally ts) = map json_of_tally (sorted_reverse votes ts)"
    by (simp add: sorted_reverse_map vote_key_tally)
  then show ?thesis
    by (simp add: sorted_by_votes_def vote_counts_tallies list_all_iff)
qed

lemma py_get_report:
  "py_get (json_of_report r) ''poll_id'' (JStr ''Unknown'') =
     Inr (case report_poll_id r of None \<Rightarrow> JStr ''Unknown'' | Some n \<Rightarrow> JInt n)"
  "py_get (json_of_report r) ''question'' (JStr ''Unknown question'') =
     Inr (case report_question r of None \<Rightarrow> JStr ''Unknown question'' | Some q \<Rightarrow> JStr q)"
  "py_get (json_of_report r) ''results'' (JArr []) =
     Inr (case report_results r of None \<Rightarrow> JArr [] | Some ts \<Rightarrow> JArr (map json_of_tally ts))"
  by (cases "report_poll_id r"; cases "report_question r"; cases "report_results r";
      simp add: json_of_report_def)+

lemma truthy_report:
  "truthy (json_of_report r) \<longleftrightarrow>
     report_poll_id r \<noteq> None \<or> report_question r \<noteq> None \<or> report_results r \<noteq> None"
  by (cases "report_poll_id r"; cases "report_question r"; cases "report_results r";
      simp add: json_of_report_def)

lemma format_report_nonempty:
  assumes "report_results r = Some ts" "ts \<noteq> []"
  shows "format_poll_results (json_of_report r) =
           render_options (sum_list (map votes ts)) 1 (map json_of_tally (sorted_reverse votes ts))
             (report_header r @ ''Total votes: '' @ str_of_int (sum_list (map votes ts)) @ nl @ nl)"
  using assms
  by (simp add: format_poll_results_def truthy_report py_get_report sorted_by_votes_tallies
      sum_votes_tallies sum_list_sorted_reverse report_header_def)

subsection \<open>The quotient of a count by the total is in range\<close>



lemma rhe_div_le: "rhe_div a b \<le> a div b + 1"
  by (simp add: rhe_div_def Let_def)



subsection \<open>The rounding is to the nearest binary64 number\<close>

text \<open>
  \<open>round_double a b\<close> is \<open>(m, p)\<close> where \<open>2 ^ p\<close> is the unit in the last place for the
  binade of \<open>a / b\<close>, the significand \<open>m\<close> has at most 53 bits (or is \<open>2 ^ 53\<close>, the next
  power of two), and \<open>m * 2 ^ p\<close> is within half a unit of \<open>a / b\<close>.
\<close>

lemma rhe_div_nearest:
  assumes "0 < b"
  shows "2 * \<bar>int (rhe_div a b) * int b - int a\<bar> \<le> int b"
proof -
  define q r where "q = a div b" and "r = a mod b"
  have a: "int a = int q * int b + int r"
    unfolding q_def r_def by (metis div_mult_mod_eq of_nat_add of_nat_mult)
  have r: "r < b" using assms by (simp add: r_def)
  consider "2 * r < b" | "b < 2 * r" | "2 * r = b" by linarith
  then show ?thesis
  proof cases
    case 1
    then have "rhe_div a b = q" by (simp add: rhe_div_def q_def r_def Let_def)
    with 1 a show ?thesis by simp
  next
    case 2
    then have "rhe_div a b = q + 1" by (simp add: rhe_div_def q_def r_def Let_def)
    with 2 r a show ?thesis by (simp add: algebra_simps)
  next
    case 3
    then have "rhe_div a b = q \<or> rhe_div a b = q + 1"
      by (simp add: rhe_div_def q_def r_def Let_def)
    with 3 a show ?thesis by (auto simp: algebra_simps)
  qed
qed

lemma bit_length_bounds:
  "0 < n \<Longrightarrow> 2 ^ bit_length n \<le> 2 * n \<and> n < 2 ^ bit_length n"
proof (induction n rule: bit_length.induct)
  case (1 n)
  show ?case
  proof (cases "n div 2 = 0")
    case True
    with "1.prems" have "n = 1" by (simp add: div_eq_0_iff) 
    then show ?thesis by (simp add: bit_length.simps)
  next
    case False
    with "1.IH" "1.prems" have ih: "2 ^ bit_length (n div 2) \<le> 2 * (n div 2)"
      "n div 2 < 2 ^ bit_length (n div 2)" by simp_all
    have bl: "bit_length n = Suc (bit_length (n div 2))"
      using "1.prems" by (subst bit_length.simps) simp
    from ih show ?thesis unfolding bl by (simp, linarith)
  qed
qed

lemma floor_log2_bounds:
  assumes "0 < a" "0 < b"
  shows "if 0 \<le> floor_log2 a b
         then b * 2 ^ nat (floor_log2 a b) \<le> a \<and> a < 2 * b * 2 ^ nat (floor_log2 a b)
         else b \<le> a * 2 ^ nat (- floor_log2 a b) \<and> a * 2 ^ nat (- floor_log2 a b) < 2 * b"
proof -
  define la lb where "la = bit_length a" and "lb = bit_length b"
  have A: "2 ^ la \<le> 2 * a" "a < 2 ^ la" and B: "2 ^ lb \<le> 2 * b" "b < 2 ^ lb"
    using bit_length_bounds [OF assms(1)] bit_length_bounds [OF assms(2)]
    by (simp_all add: la_def lb_def)
  show ?thesis
  proof (cases "lb \<le> la")
    case True
    define k where "k = la - lb"
    have la: "la = lb + k" using True by (simp add: k_def)
    have d: "int (bit_length a) - int (bit_length b) = int k"
      using la by (simp add: la_def lb_def)
    have pw: "(2::nat) ^ la = 2 ^ lb * 2 ^ k" by (simp add: la power_add)
    have up: "a < 2 * b * 2 ^ k"
    proof -
      have "a < 2 ^ lb * 2 ^ k" using A(2) pw by simp
      also have "\<dots> \<le> (2 * b) * 2 ^ k" using B(1) by (rule mult_le_mono1)
      finally show ?thesis .
    qed
    have lo: "b * 2 ^ k < 2 * a"
    proof -
      have "b * 2 ^ k < 2 ^ lb * 2 ^ k" using B(2) by simp
      also have "\<dots> \<le> 2 * a" using A(1) pw by simp
      finally show ?thesis .
    qed
    show ?thesis
    proof (cases "b * 2 ^ k \<le> a")
      case c: True
      then have "floor_log2 a b = int k" by (simp add: floor_log2_def d Let_def)
      with c up show ?thesis by simp
    next
      case c: False
      then have e: "floor_log2 a b = int k - 1" by (simp add: floor_log2_def d Let_def)
      show ?thesis
      proof (cases k)
        case 0
        with e c lo show ?thesis by simp
      next
        case (Suc j)
        with e have "floor_log2 a b = int j" by simp
        with c lo Suc show ?thesis by simp
      qed
    qed
  next
    case False
    define k where "k = lb - la"
    have lb: "lb = la + k" and k: "0 < k" using False by (simp_all add: k_def)
    have d: "int (bit_length a) - int (bit_length b) = - int k"
      using lb by (simp add: la_def lb_def)
    have pw: "(2::nat) ^ lb = 2 ^ la * 2 ^ k" by (simp add: lb power_add)
    have up: "a * 2 ^ k < 2 * b"
    proof -
      have "a * 2 ^ k < 2 ^ la * 2 ^ k" using A(2) by simp
      also have "\<dots> \<le> 2 * b" using B(1) pw by simp
      finally show ?thesis .
    qed
    have lo: "b < 2 * a * 2 ^ k"
    proof -
      have "b < 2 ^ la * 2 ^ k" using B(2) pw by simp
      also have "\<dots> \<le> (2 * a) * 2 ^ k" using A(1) by (rule mult_le_mono1)
      finally show ?thesis .
    qed
    show ?thesis
    proof (cases "b \<le> a * 2 ^ k")
      case c: True
      then have "floor_log2 a b = - int k" using k by (simp add: floor_log2_def d Let_def)
      with c up k show ?thesis by simp
    next
      case c: False
      then have e: "floor_log2 a b = - int k - 1" using k by (simp add: floor_log2_def d Let_def)
      then have "nat (- floor_log2 a b) = Suc k" by simp
      with e c lo show ?thesis by simp
    qed
  qed
qed

lemma rhe_div_less:
  assumes "x < y * n"
  shows "rhe_div x y \<le> n"
proof -
  have "0 < y" using assms by (cases y) simp_all
  then have "x div y < n" using assms by (simp add: less_mult_imp_div_less mult.commute)
  with rhe_div_le [of x y] show ?thesis by simp
qed

lemma round_double_significand:
  assumes "0 < a" "0 < b"
  shows "fst (round_double a b) \<le> 2 ^ 53"
proof -
  define e where "e = floor_log2 a b"
  define p where "p = max (e - 52) (- 1074)"
  have pe: "e - 52 \<le> p" by (simp add: p_def)
  note bounds = floor_log2_bounds [OF assms, folded e_def]
  show ?thesis
  proof (cases "0 \<le> p")
    case True
    then have ep: "e = p + 52" by (simp add: p_def max_def split: if_splits)
    then have "nat e = nat p + 52" using True by simp
    with bounds True ep have "a < 2 * b * 2 ^ (nat p + 52)" by simp
    then have "a < (b * 2 ^ nat p) * 2 ^ 53" by (simp add: power_add)
    then have "rhe_div a (b * 2 ^ nat p) \<le> 2 ^ 53" by (rule rhe_div_less)
    with True assms show ?thesis
      by (simp add: round_double_def e_def [symmetric] p_def [symmetric] Let_def)
  next
    case False
    have "a * 2 ^ nat (- p) < b * 2 ^ 53"
    proof (cases "0 \<le> e")
      case e: True
      with bounds have "a < 2 * b * 2 ^ nat e" by simp
      then have "a * 2 ^ nat (- p) < (2 * b * 2 ^ nat e) * 2 ^ nat (- p)" by simp
      also have "\<dots> = 2 * b * 2 ^ (nat e + nat (- p))" by (simp add: power_add)
      also have "\<dots> \<le> 2 * b * 2 ^ 52"
      proof -
        have "nat e + nat (- p) \<le> 52" using e False pe by simp
        then have "(2::nat) ^ (nat e + nat (- p)) \<le> 2 ^ 52" by (intro power_increasing) simp_all
        then show ?thesis by simp
      qed
      finally show ?thesis by simp
    next
      case e: False
      with bounds have lt: "a * 2 ^ nat (- e) < 2 * b" by simp
      show ?thesis
      proof (cases "p \<le> e")
        case True
        define j where "j = nat (e - p)"
        have np: "nat (- p) = nat (- e) + j" using True e by (simp add: j_def)
        have j: "j \<le> 52" using pe by (simp add: j_def)
        have "a * 2 ^ nat (- p) = (a * 2 ^ nat (- e)) * 2 ^ j" by (simp add: np power_add)
        also have "\<dots> < (2 * b) * 2 ^ j" using lt by simp
        also have "\<dots> \<le> (2 * b) * 2 ^ 52"
        proof -
          have "(2::nat) ^ j \<le> 2 ^ 52" using j by (intro power_increasing) simp_all
          then show ?thesis by simp
        qed
        finally show ?thesis by simp
      next
        case pgt: False
        then have "nat (- p) \<le> nat (- e)" by simp
        then have "(2::nat) ^ nat (- p) \<le> 2 ^ nat (- e)" by (intro power_increasing) simp_all
        then have "a * 2 ^ nat (- p) \<le> a * 2 ^ nat (- e)" by simp
        also have "\<dots> < 2 * b" by (rule lt)
        also have "\<dots> \<le> b * 2 ^ 53" by simp
        finally show ?thesis .
      qed
    qed
    then have "rhe_div (a * 2 ^ nat (- p)) b \<le> 2 ^ 53" by (rule rhe_div_less)
    with False assms show ?thesis
      by (simp add: round_double_def e_def [symmetric] p_def [symmetric] Let_def)
  qed
qed

lemma round_double_nearest:
  assumes "0 < b"
  shows "if 0 \<le> snd (round_double a b)
         then 2 * \<bar>int (fst (round_double a b)) * int (b * 2 ^ nat (snd (round_double a b))) - int a\<bar>
                \<le> int (b * 2 ^ nat (snd (round_double a b)))
         else 2 * \<bar>int (fst (round_double a b)) * int b
                     - int (a * 2 ^ nat (- snd (round_double a b)))\<bar> \<le> int b"
proof (cases "a = 0")
  case True
  then show ?thesis by (simp add: round_double_def)
next
  case False
  define p where "p = max (floor_log2 a b - 52) (- 1074)"
  show ?thesis
  proof (cases "0 \<le> p")
    case True
    have "0 < b * 2 ^ nat p" using assms by simp
    from rhe_div_nearest [OF this, of a] True False show ?thesis
      by (simp add: round_double_def p_def [symmetric] Let_def)
  next
    case p: False
    from rhe_div_nearest [OF assms, of "a * 2 ^ nat (- p)"] p False show ?thesis
      by (simp add: round_double_def p_def [symmetric] Let_def)
  qed
qed

subsection \<open>The blocks and the errors of the formatter\<close>

lemma percentage_JInt:
  "percentage (JInt v) total_votes =
     (if total_votes > 0 then
        (case int_truediv v total_votes of Inl e \<Rightarrow> Inl e | Inr q \<Rightarrow> Inr (float_mul_nat q 100))
      else Inr (Finite False 0 0))"
  by (simp add: percentage_def py_truediv_def)

lemma option_block_tally:
  "option_block total_votes i (json_of_tally t) =
     (case percentage (JInt (votes t)) total_votes of
        Inl e \<Rightarrow> Inl e
      | Inr pct \<Rightarrow> Inr (tally_block i t pct))"
  by (cases "tally_option_id t"; cases "tally_text t")
    (simp_all add: option_block_def py_get_option_id py_get_text py_get_vote_count tally_block_def
      split: sum.splits)



















subsection \<open>The percentages of three votes and of one vote out of four\<close>

lemma round_double_3_4: "round_double 3 4 = (6755399441055744, - 53)"
  by (simp add: round_double_def floor_log2_def bit_length.simps rhe_div_def Let_def)

lemma round_double_1_4: "round_double (Suc 0) 4 = (4503599627370496, - 54)"
  by (simp add: round_double_def floor_log2_def bit_length.simps rhe_div_def Let_def)

lemma round_double_75: "round_double 675539944105574400 9007199254740992 = (5277655813324800, - 46)"
  by (simp add: round_double_def floor_log2_def bit_length.simps rhe_div_def Let_def)

lemma round_double_25: "round_double 450359962737049600 18014398509481984 = (7036874417766400, - 48)"
  by (simp add: round_double_def floor_log2_def bit_length.simps rhe_div_def Let_def)

lemma percentage_3_4: "percentage (JInt 3) 4 = Inr (Finite False 5277655813324800 (- 46))"
  by (simp add: percentage_JInt int_truediv_def round_double_3_4 round_double_75 overflows_def)

lemma percentage_1_4: "percentage (JInt 1) 4 = Inr (Finite False 7036874417766400 (- 48))"
  by (simp add: percentage_JInt int_truediv_def round_double_1_4 round_double_25 overflows_def)

lemma format_1f_75: "format_1f (Finite False 5277655813324800 (- 46)) = ''75.0''"
  by (simp add: rhe_div_def Let_def str_of_nat.simps)

lemma format_1f_25: "format_1f (Finite False 7036874417766400 (- 48)) = ''25.0''"
  by (simp add: rhe_div_def Let_def str_of_nat.simps)






subsection \<open>No results\<close>

lemma format_report_no_results:
  assumes "report_results r = None \<or> report_results r = Some []"
  shows "format_poll_results (json_of_report r) =
           Inr (if report_poll_id r = None \<and> report_question r = None \<and> report_results r = None
                then ''No results data available''
                else report_header r @ ''No votes cast yet.'' @ nl)"
  using assms
  by (auto simp: format_poll_results_def truthy_report py_get_report report_header_def)

section \<open>The claims about the formatter\<close>





text \<open>
  C5. For the two options A with 3 votes and B with 1 vote, whatever the poll identifier
  and the question are, the formatter reports a total of 4 and prints the percentages
  75.0 and 25.0.
\<close>

theorem two_options_example:
  "format_poll_results (json_of_report
     (r\<lparr>report_results := Some
        [\<lparr>tally_option_id = Some 1, tally_text = Some ''A'', tally_vote_count = Some 3\<rparr>,
         \<lparr>tally_option_id = Some 2, tally_text = Some ''B'', tally_vote_count = Some 1\<rparr>]\<rparr>))
   = Inr (report_header r
          @ ''Total votes: 4'' @ nl @ nl
          @ ''1. A'' @ nl @ ''   Votes: 3 (75.0%)'' @ nl @ ''   Option ID: 1'' @ nl @ nl
          @ ''2. B'' @ nl @ ''   Votes: 1 (25.0%)'' @ nl @ ''   Option ID: 2'' @ nl @ nl)"
proof -
  let ?a = "\<lparr>tally_option_id = Some 1, tally_text = Some ''A'', tally_vote_count = Some 3\<rparr>"
  let ?b = "\<lparr>tally_option_id = Some 2, tally_text = Some ''B'', tally_vote_count = Some 1\<rparr>"
  let ?r = "r\<lparr>report_results := Some [?a, ?b]\<rparr>"
  have srt: "sorted_reverse votes [?a, ?b] = [?a, ?b]"
    by (simp add: sorted_reverse_def votes_def)
  have tot: "sum_list (map votes [?a, ?b]) = 4"
    by (simp add: votes_def)
  have a: "option_block 4 1 (json_of_tally ?a)
             = Inr (''1. A'' @ nl @ ''   Votes: 3 (75.0%)'' @ nl @ ''   Option ID: 1'' @ nl @ nl)"
    by (simp add: option_block_tally votes_def percentage_3_4 tally_block_def format_1f_75
        str_of_int_def str_of_nat.simps del: format_1f.simps)
  have b: "option_block 4 (Suc 1) (json_of_tally ?b)
             = Inr (''2. B'' @ nl @ ''   Votes: 1 (25.0%)'' @ nl @ ''   Option ID: 2'' @ nl @ nl)"
    by (simp add: option_block_tally votes_def percentage_1_4 tally_block_def format_1f_25
        str_of_int_def str_of_nat.simps del: format_1f.simps)
  have hdr: "report_header ?r = report_header r"
    by (simp add: report_header_def)
  have "format_poll_results (json_of_report ?r) =
          render_options 4 1 [json_of_tally ?a, json_of_tally ?b]
            (report_header ?r @ ''Total votes: '' @ str_of_int 4 @ nl @ nl)"
    using format_report_nonempty [of ?r "[?a, ?b]"] by (simp only: srt tot) simp
  also have "\<dots> = Inr ((report_header ?r @ ''Total votes: '' @ str_of_int 4 @ nl @ nl)
          @ (''1. A'' @ nl @ ''   Votes: 3 (75.0%)'' @ nl @ ''   Option ID: 1'' @ nl @ nl)
          @ (''2. B'' @ nl @ ''   Votes: 1 (25.0%)'' @ nl @ ''   Option ID: 2'' @ nl @ nl))"
    by (simp only: render_options.simps a b sum.case append_assoc)
  finally show ?thesis
    by (simp add: hdr str_of_int_def str_of_nat.simps)
qed

theorem two_options_example_witness:
  "format_poll_results (json_of_report
     \<lparr>report_poll_id = Some 7, report_question = Some ''Best?'',
      report_results = Some
        [\<lparr>tally_option_id = Some 1, tally_text = Some ''A'', tally_vote_count = Some 3\<rparr>,
         \<lparr>tally_option_id = Some 2, tally_text = Some ''B'', tally_vote_count = Some 1\<rparr>]\<rparr>)
   = Inr (''Poll #7: Best?'' @ nl @ ''=============='' @ nl @ nl
          @ ''Total votes: 4'' @ nl @ nl
          @ ''1. A'' @ nl @ ''   Votes: 3 (75.0%)'' @ nl @ ''   Option ID: 1'' @ nl @ nl
          @ ''2. B'' @ nl @ ''   Votes: 1 (25.0%)'' @ nl @ ''   Option ID: 2'' @ nl @ nl)"
  using two_options_example
    [of "\<lparr>report_poll_id = Some 7, report_question = Some ''Best?'', report_results = None\<rparr>"]
  by (simp add: report_header_def header_def str_of_int_def str_of_nat.simps)



text \<open>
  C3, as the claim states it: for an absent report, and for an absent or empty \<open>results\<close>
  list, the message would include the header with the poll identifier and report a total
  of zero votes. The formatter returns \<open>No results data available\<close> for an absent or
  empty report, without any header; and for an empty \<open>results\<close> list it prints the header
  and \<open>No votes cast yet.\<close>, without a line for the total.
\<close>

theorem no_results_message_counterexample:
  "format_poll_results JNull = Inr ''No results data available''
   \<and> format_poll_results (JObj []) = Inr ''No results data available''
   \<and> \<not> sublist ''Poll #'' ''No results data available''
   \<and> \<not> sublist ''Total votes'' ''No results data available''
   \<and> format_poll_results (json_of_report
        \<lparr>report_poll_id = Some 7, report_question = Some ''Best?'', report_results = Some []\<rparr>)
      = Inr (''Poll #7: Best?'' @ nl @ ''=============='' @ nl @ nl @ ''No votes cast yet.'' @ nl)
   \<and> \<not> sublist ''Total votes''
        (''Poll #7: Best?'' @ nl @ ''=============='' @ nl @ nl @ ''No votes cast yet.'' @ nl)
   \<and> CHR ''0'' \<notin> set (''Poll #7: Best?'' @ nl @ ''=============='' @ nl @ nl @ ''No votes cast yet.'' @ nl)"
proof -
  let ?r = "\<lparr>report_poll_id = Some 7, report_question = Some ''Best?'', report_results = Some []\<rparr>"
  have hdr: "report_header ?r = ''Poll #7: Best?'' @ nl @ ''=============='' @ nl @ nl"
    by (simp add: report_header_def header_def str_of_int_def str_of_nat.simps)
  have "format_poll_results (json_of_report ?r)
      = Inr (''Poll #7: Best?'' @ nl @ ''=============='' @ nl @ nl @ ''No votes cast yet.'' @ nl)"
    using format_report_no_results [of ?r] unfolding hdr by simp
  moreover have "format_poll_results JNull = Inr ''No results data available''"
    "format_poll_results (JObj []) = Inr ''No results data available''"
    by (simp_all add: format_poll_results_def)
  moreover have "\<not> sublist ''Poll #'' ''No results data available''"
    "\<not> sublist ''Total votes'' ''No results data available''"
    by (simp_all add: sublist_Cons_right)
  moreover have "\<not> sublist ''Total votes''
        (''Poll #7: Best?'' @ nl @ ''=============='' @ nl @ nl @ ''No votes cast yet.'' @ nl)"
    by (simp add: sublist_Cons_right)
  ultimately show ?thesis by simp
qed

text \<open>
  C3, amended. For an absent or empty report \<open>format_poll_results\<close> returns, without error,
  the fixed message \<open>No results data available\<close>. For a report that is not empty and whose
  \<open>results\<close> list is absent or empty it returns, without error, the header line, its
  underline, an empty line and the line \<open>No votes cast yet.\<close>; no line with a total of
  votes is added.
\<close>

theorem no_results_message:
  "format_poll_results JNull = Inr ''No results data available''
   \<and> (report_results r = None \<or> report_results r = Some [] \<longrightarrow>
        format_poll_results (json_of_report r) =
          Inr (if report_poll_id r = None \<and> report_question r = None \<and> report_results r = None
               then ''No results data available''
               else report_header r @ ''No votes cast yet.'' @ nl))"
  using format_report_no_results [of r] by (simp add: format_poll_results_def)

theorem no_results_message_witness:
  "format_poll_results (json_of_report
        \<lparr>report_poll_id = Some 7, report_question = None, report_results = None\<rparr>)
      = Inr (''Poll #7: Unknown question'' @ nl @ ''========================='' @ nl @ nl
             @ ''No votes cast yet.'' @ nl)
   \<and> format_poll_results (json_of_report
        \<lparr>report_poll_id = None, report_question = None, report_results = None\<rparr>)
      = Inr ''No results data available''"
  using no_results_message [of "\<lparr>report_poll_id = Some 7, report_question = None, report_results = None\<rparr>"]
    no_results_message [of "\<lparr>report_poll_id = None, report_question = None, report_results = None\<rparr>"]
  by (simp add: report_header_def header_def str_of_int_def str_of_nat.simps)

section \<open>The claims about the client functions\<close>

subsection \<open>The limit on the conversion of an \<open>int\<close> to a \<open>str\<close>\<close>

lemma int_to_str_within: "within_str_limit i \<Longrightarrow> int_to_str i = Inr (str_of_int i)"
  by (simp add: int_to_str_def)

lemma int_to_str_error: "int_to_str i = Inl e \<Longrightarrow> \<not> within_str_limit i \<and> (\<exists>m. e = ValueError [AStr m])"
  by (auto simp: int_to_str_def split: if_splits)

lemma str_of_nat_length: "10 ^ k \<le> n \<Longrightarrow> k < length (str_of_nat n)"
proof (induction k arbitrary: n)
  case 0
  show ?case by (subst str_of_nat.simps) simp
next
  case (Suc k)
  from Suc.prems have p: "10 * 10 ^ k \<le> n" by simp
  have q: "(1::nat) \<le> 10 ^ k" by simp
  from p q have n: "\<not> n < 10" by linarith
  from Suc.prems have "10 ^ k \<le> n div 10"
    by (simp add: less_eq_div_iff_mult_less_eq mult.commute)
  then have "k < length (str_of_nat (n div 10))" using Suc.IH by blast
  with n show ?case by (subst str_of_nat.simps) simp
qed

text \<open>
  An identifier beyond the limit, such as \<open>10 ^ 4300\<close>, makes the three functions that put
  it in their URL raise \<open>ValueError\<close> at that statement: before the validation, outside
  any \<open>try\<close>, and before any request.
\<close>

lemma beyond_str_limit: "\<not> within_str_limit (10 ^ 4300)"
proof -
  have "\<bar>(10::int) ^ 4300\<bar> = 10 ^ 4300"
    by (rule abs_of_nonneg) (rule zero_le_power, simp)
  moreover have "nat ((10::int) ^ 4300) = nat 10 ^ 4300"
    by (rule nat_power_eq) simp
  moreover have "nat (10::int) = 10" by simp
  ultimately have "nat \<bar>(10::int) ^ 4300\<bar> = 10 ^ 4300"
    by (simp only:)
  moreover have "4300 < length (str_of_nat (10 ^ 4300))"
    by (rule str_of_nat_length) (rule order_refl)
  ultimately show ?thesis
    by (simp only: within_str_limit_def max_str_digits_def not_le)
qed

lemma url_conversion_raises:
  assumes "\<not> within_str_limit poll_id"
  shows "\<exists>m. get_poll_results poll_id base_url net = (Inl (ValueError [AStr m]), [])"
    and "\<exists>m. get_poll_results_with_error_handling poll_id base_url net
              = (Inl (ValueError [AStr m]), [])"
    and "\<exists>m. vote_on_poll poll_id option_id access_token base_url net
              = (Inl (ValueError [AStr m]), [])"
  using assms
  by (simp_all add: get_poll_results_def get_poll_results_with_error_handling_def
      vote_on_poll_def int_to_str_def)

subsection \<open>Validation before the request\<close>

text \<open>
  \<open>fetch_polls\<close>, \<open>get_poll_results\<close>, \<open>get_poll_results_with_error_handling\<close>,
  \<open>vote_on_poll\<close> and \<open>register_user\<close> reject a bad argument with an empty trace: no
  request is sent.
\<close>

lemma validation_before_request:
  "skip < 0 \<or> limit \<le> 0 \<Longrightarrow>
     \<exists>m. fetch_polls skip limit base_url net = (Inl (ValueError [AInt 400, AStr m]), [])"
  "poll_id \<le> 0 \<Longrightarrow>
     \<exists>m. get_poll_results poll_id base_url net = (Inl (ValueError [AStr m]), [])"
  "poll_id \<le> 0 \<Longrightarrow> within_str_limit poll_id \<Longrightarrow>
     get_poll_results_with_error_handling poll_id base_url net =
       (Inr (False, JNull, JStr ''Poll ID must be a positive integer''), [])"
  "poll_id \<le> 0 \<Longrightarrow> snd (get_poll_results_with_error_handling poll_id base_url net) = []"
  "poll_id \<le> 0 \<or> option_id \<le> 0 \<or> access_token = [] \<Longrightarrow>
     \<exists>m. vote_on_poll poll_id option_id access_token base_url net = (Inl (ValueError [AStr m]), [])"
  "username = [] \<or> password = [] \<Longrightarrow>
     register_user username password base_url net =
       (Inl (ValueError [AInt 400, AStr ''Username and password are required'']), [])"
  by (auto simp: fetch_polls_def get_poll_results_def get_poll_results_with_error_handling_def
      vote_on_poll_def register_user_def Let_def int_to_str_def)

text \<open>
  C6. The specification has every client function reject a bad argument before any
  request. The five functions above do. \<open>login_and_get_token\<close> does not check its
  arguments: called with an empty user name and an empty password it sends the request
  \<open>POST /login\<close> with both fields empty.
\<close>

theorem login_sends_empty_credentials:
  "snd (login_and_get_token [] [] base_url net) =
     [Sent (Post_data (base_url @ ''/login'') [(''username'', JStr []), (''password'', JStr [])])]"
  by (simp add: login_and_get_token_def Let_def)

subsection \<open>The status codes\<close>

lemma fetch_polls_http_error:
  assumes "0 \<le> skip" "0 < limit"
    and "net (Get (base_url @ ''/polls'') [(''skip'', JInt skip), (''limit'', JInt limit)]) = Inr response"
    and "400 \<le> status_code response" "status_code response < 600"
  shows "fst (fetch_polls skip limit base_url net) = Inl (Raised (RequestException ''Failed to fetch polls''))"
  using assms
  by (auto simp: fetch_polls_def Let_def send_def raise_for_status_def reraise_request_exception_def)

text \<open>
  C8. The specification has \<open>fetch_polls\<close> fail on every status other than 200.
  \<open>raise_for_status\<close> raises for the codes 400 to 599 only: on any other code that is
  not 200, such as 204, \<open>fetch_polls\<close> falls off its end and returns \<open>None\<close> to the
  caller.
\<close>

theorem fetch_polls_returns_on_204:
  "fetch_polls 0 10 base_url
     (const_server \<lparr>status_code = 204, reason = ''No Content'', resp_url = u, body_json = b\<rparr>)
   = (Inr JNull, [Sent (Get (base_url @ ''/polls'') [(''skip'', JInt 0), (''limit'', JInt 10)])])"
  by (simp add: fetch_polls_def Let_def send_def const_server_def raise_for_status_def)

lemma error_handling_except_message:
  "\<exists>m. error_handling_except e = Inr (False, JNull, JStr m) \<and> m \<noteq> ''Poll not found''"
  by (simp add: error_handling_except_def)

lemma get_poll_results_transport_failure:
  assumes "0 < poll_id" and "within_str_limit poll_id"
    and "net (Get (base_url @ ''/polls/'' @ str_of_int poll_id @ ''/results'') []) = Inl e"
  shows "\<exists>e'. fst (get_poll_results poll_id base_url net) = Inl (Raised e')"
  using assms
  by (auto simp: get_poll_results_def Let_def send_def reraise_request_exception_def
      int_to_str_within)

text \<open>
  C7. When the server answers the request for the results of a poll with the status 404
  (the identifier being positive and within the limit of the conversion, so that the
  request is sent), \<open>get_poll_results\<close> raises \<open>ValueError("Poll not found")\<close>,
  \<open>get_poll_results_with_error_handling\<close> returns \<open>(False, None, "Poll not found")\<close>, and
  \<open>get_poll_results_summary\<close> raises the same \<open>ValueError\<close> with a trace that holds the
  request alone: the formatter is not called. A failure of the transport gives neither
  of the two results.
\<close>

theorem poll_not_found:
  assumes "0 < poll_id" and "within_str_limit poll_id"
    and "net (Get (base_url @ ''/polls/'' @ str_of_int poll_id @ ''/results'') []) = Inr response"
    and "status_code response = 404"
  shows "get_poll_results poll_id base_url net =
           (Inl (ValueError [AStr ''Poll not found'']),
            [Sent (Get (base_url @ ''/polls/'' @ str_of_int poll_id @ ''/results'') [])])
     \<and> get_poll_results_with_error_handling poll_id base_url net =
           (Inr (False, JNull, JStr ''Poll not found''),
            [Sent (Get (base_url @ ''/polls/'' @ str_of_int poll_id @ ''/results'') [])])
     \<and> get_poll_results_summary poll_id base_url net =
           (Inl (ValueError [AStr ''Poll not found'']),
            [Sent (Get (base_url @ ''/polls/'' @ str_of_int poll_id @ ''/results'') [])])
     \<and> (\<forall>net' e. net' (Get (base_url @ ''/polls/'' @ str_of_int poll_id @ ''/results'') []) = Inl e \<longrightarrow>
           fst (get_poll_results poll_id base_url net') \<noteq> Inl (ValueError [AStr ''Poll not found''])
         \<and> fst (get_poll_results_with_error_handling poll_id base_url net')
              \<noteq> Inr (False, JNull, JStr ''Poll not found''))"
proof (intro conjI allI impI)
  show 1: "get_poll_results poll_id base_url net =
           (Inl (ValueError [AStr ''Poll not found'']),
            [Sent (Get (base_url @ ''/polls/'' @ str_of_int poll_id @ ''/results'') [])])"
    using assms
    by (simp add: get_poll_results_def Let_def send_def reraise_request_exception_def
        int_to_str_within)
  show "get_poll_results_with_error_handling poll_id base_url net =
           (Inr (False, JNull, JStr ''Poll not found''),
            [Sent (Get (base_url @ ''/polls/'' @ str_of_int poll_id @ ''/results'') [])])"
    using assms
    by (simp add: get_poll_results_with_error_handling_def Let_def error_handling_body_def
        int_to_str_within)
  show "get_poll_results_summary poll_id base_url net =
           (Inl (ValueError [AStr ''Poll not found'']),
            [Sent (Get (base_url @ ''/polls/'' @ str_of_int poll_id @ ''/results'') [])])"
    by (simp add: get_poll_results_summary_def 1)
next
  fix net' :: network and e :: lib_exc
  assume e: "net' (Get (base_url @ ''/polls/'' @ str_of_int poll_id @ ''/results'') []) = Inl e"
  from get_poll_results_transport_failure [of poll_id net' base_url e, OF assms(1,2) e]
  show "fst (get_poll_results poll_id base_url net') \<noteq> Inl (ValueError [AStr ''Poll not found''])"
    by auto
  obtain m where "error_handling_except e = Inr (False, JNull, JStr m)" "m \<noteq> ''Poll not found''"
    using error_handling_except_message by blast
  then show "fst (get_poll_results_with_error_handling poll_id base_url net')
              \<noteq> Inr (False, JNull, JStr ''Poll not found'')"
    using assms(1,2) e
    by (simp add: get_poll_results_with_error_handling_def Let_def error_handling_body_def
        int_to_str_within)
qed

theorem poll_not_found_witness:
  "get_poll_results 999 ''http://localhost:8000''
     (const_server \<lparr>status_code = 404, reason = ''Not Found'', resp_url = [],
                    body_json = Inr (JObj [(''detail'', JStr ''Poll not found'')])\<rparr>)
     = (Inl (ValueError [AStr ''Poll not found'']),
        [Sent (Get ''http://localhost:8000/polls/999/results'' [])])
   \<and> get_poll_results_with_error_handling 999 ''http://localhost:8000''
     (const_server \<lparr>status_code = 404, reason = ''Not Found'', resp_url = [],
                    body_json = Inr (JObj [(''detail'', JStr ''Poll not found'')])\<rparr>)
     = (Inr (False, JNull, JStr ''Poll not found''),
        [Sent (Get ''http://localhost:8000/polls/999/results'' [])])
   \<and> get_poll_results_summary 999 ''http://localhost:8000''
     (const_server \<lparr>status_code = 404, reason = ''Not Found'', resp_url = [],
                    body_json = Inr (JObj [(''detail'', JStr ''Poll not found'')])\<rparr>)
     = (Inl (ValueError [AStr ''Poll not found'']),
        [Sent (Get ''http://localhost:8000/polls/999/results'' [])])"
proof -
  let ?response = "\<lparr>status_code = 404, reason = ''Not Found'', resp_url = [],
                    body_json = Inr (JObj [(''detail'', JStr ''Poll not found'')])\<rparr>"
  have url: "''http://localhost:8000'' @ ''/polls/'' @ str_of_int 999 @ ''/results''
               = ''http://localhost:8000/polls/999/results''"
    by (simp add: str_of_int_def str_of_nat.simps)
  have "(0::int) < 999" "within_str_limit 999"
    "const_server ?response (Get (''http://localhost:8000'' @ ''/polls/'' @ str_of_int 999 @ ''/results'') [])
       = Inr ?response"
    "status_code ?response = 404"
    by (simp_all add: const_server_def within_str_limit_def max_str_digits_def str_of_nat.simps)
  from poll_not_found [of 999 "const_server ?response" "''http://localhost:8000''" ?response, OF this]
  show ?thesis
    unfolding url by blast
qed

text \<open>
  C9. For a response whose status is neither 200 nor 404 (the identifier being positive
  and within the limit of the conversion, so that the request is sent),
  \<open>get_poll_results_with_error_handling\<close> returns a failure. Its message is the value
  under \<open>detail\<close> when the body is a JSON object with that key, and \<open>HTTP <status>: <reason>\<close>
  in every other case: a body that is not JSON, not an object, or an object without the
  key.
\<close>

theorem unrecognised_status_message:
  assumes "0 < poll_id" and "within_str_limit poll_id"
    and "net (Get (base_url @ ''/polls/'' @ str_of_int poll_id @ ''/results'') []) = Inr response"
    and "status_code response \<noteq> 200" and "status_code response \<noteq> 404"
  shows "(\<forall>kvs detail. body_json response = Inr (JObj kvs) \<and> map_of kvs ''detail'' = Some detail \<longrightarrow>
            get_poll_results_with_error_handling poll_id base_url net =
              (Inr (False, JNull, detail),
               [Sent (Get (base_url @ ''/polls/'' @ str_of_int poll_id @ ''/results'') [])]))
       \<and> ((\<nexists>kvs detail. body_json response = Inr (JObj kvs) \<and> map_of kvs ''detail'' = Some detail) \<longrightarrow>
            get_poll_results_with_error_handling poll_id base_url net =
              (Inr (False, JNull,
                    JStr (''HTTP '' @ str_of_int (status_code response) @ '': '' @ reason response)),
               [Sent (Get (base_url @ ''/polls/'' @ str_of_int poll_id @ ''/results'') [])]))"
  using assms
  by (auto simp: get_poll_results_with_error_handling_def Let_def error_handling_body_def
      int_to_str_within split: sum.splits json.splits option.splits)

theorem unrecognised_status_message_witness:
  "get_poll_results_with_error_handling 1 ''http://localhost:8000''
     (const_server \<lparr>status_code = 500, reason = ''Internal Server Error'', resp_url = [],
                    body_json = Inr (JObj [(''detail'', JStr ''database is down'')])\<rparr>)
     = (Inr (False, JNull, JStr ''database is down''),
        [Sent (Get ''http://localhost:8000/polls/1/results'' [])])
   \<and> get_poll_results_with_error_handling 1 ''http://localhost:8000''
     (const_server \<lparr>status_code = 503, reason = ''Service Unavailable'', resp_url = [],
                    body_json = Inl (RequestsJSONDecodeError ''Expecting value'')\<rparr>)
     = (Inr (False, JNull, JStr ''HTTP 503: Service Unavailable''),
        [Sent (Get ''http://localhost:8000/polls/1/results'' [])])"
proof -
  let ?r1 = "\<lparr>status_code = 500, reason = ''Internal Server Error'', resp_url = [],
                    body_json = Inr (JObj [(''detail'', JStr ''database is down'')])\<rparr>"
  let ?r2 = "\<lparr>status_code = 503, reason = ''Service Unavailable'', resp_url = [],
                    body_json = Inl (RequestsJSONDecodeError ''Expecting value'')\<rparr>"
  have url: "''http://localhost:8000'' @ ''/polls/'' @ str_of_int 1 @ ''/results''
               = ''http://localhost:8000/polls/1/results''"
    by (simp add: str_of_int_def str_of_nat.simps)
  have s503: "str_of_int 503 = ''503''"
    by (simp add: str_of_int_def str_of_nat.simps)
  have lim: "within_str_limit 1"
    by (simp add: within_str_limit_def max_str_digits_def str_of_nat.simps)
  have 1: "(0::int) < 1" "within_str_limit 1"
    "const_server ?r1 (Get (''http://localhost:8000'' @ ''/polls/'' @ str_of_int 1 @ ''/results'') [])
       = Inr ?r1"
    "status_code ?r1 \<noteq> 200" "status_code ?r1 \<noteq> 404"
    by (simp_all add: const_server_def lim)
  have 2: "(0::int) < 1" "within_str_limit 1"
    "const_server ?r2 (Get (''http://localhost:8000'' @ ''/polls/'' @ str_of_int 1 @ ''/results'') [])
       = Inr ?r2"
    "status_code ?r2 \<noteq> 200" "status_code ?r2 \<noteq> 404"
    by (simp_all add: const_server_def lim)
  from unrecognised_status_message [of 1 "const_server ?r1" "''http://localhost:8000''" ?r1, OF 1]
  have a: "get_poll_results_with_error_handling 1 ''http://localhost:8000'' (const_server ?r1)
     = (Inr (False, JNull, JStr ''database is down''),
        [Sent (Get ''http://localhost:8000/polls/1/results'' [])])"
    unfolding url by simp
  from unrecognised_status_message [of 1 "const_server ?r2" "''http://localhost:8000''" ?r2, OF 2]
  have b: "get_poll_results_with_error_handling 1 ''http://localhost:8000'' (const_server ?r2)
     = (Inr (False, JNull, JStr ''HTTP 503: Service Unavailable''),
        [Sent (Get ''http://localhost:8000/polls/1/results'' [])])"
    unfolding url by (simp add: s503)
  from a b show ?thesis by simp
qed

text \<open>
  C10, as the claim states it: a success would always come with \<open>results_data\<close> other than
  \<open>None\<close>. A server that answers 200 with the body \<open>null\<close> makes the call succeed with
  \<open>results_data\<close> \<open>None\<close>: the decoded body is returned as it is.
\<close>

theorem success_flag_counterexample:
  "get_poll_results_with_error_handling 1 ''http://localhost:8000''
     (const_server \<lparr>status_code = 200, reason = ''OK'', resp_url = [], body_json = Inr JNull\<rparr>)
     = (Inr (True, JNull, JNull), [Sent (Get ''http://localhost:8000/polls/1/results'' [])])"
  by (simp add: get_poll_results_with_error_handling_def Let_def error_handling_body_def
      const_server_def int_to_str_def within_str_limit_def max_str_digits_def
      str_of_int_def str_of_nat.simps)

text \<open>
  C10, amended. For a poll identifier within the limit of the conversion to a string,
  and for every behaviour of the transport, \<open>get_poll_results_with_error_handling\<close> does
  not raise: it returns a triple \<open>(success, results_data, error_message)\<close>. When \<open>success\<close>
  is \<open>True\<close>, \<open>error_message\<close> is \<open>None\<close> and \<open>results_data\<close> is the decoded body of the 200
  response, whatever it is. When \<open>success\<close> is \<open>False\<close>, \<open>results_data\<close> is \<open>None\<close>, and
  \<open>error_message\<close> is not \<open>None\<close> for every outcome other than an error response whose
  body is a JSON object with a \<open>null\<close> under \<open>detail\<close>; nothing is stated about the message
  for that response.
\<close>

theorem success_flag:
  assumes "within_str_limit poll_id"
  shows "\<exists>success results_data error_message.
     fst (get_poll_results_with_error_handling poll_id base_url net)
       = Inr (success, results_data, error_message)
     \<and> (success \<longrightarrow> error_message = JNull
          \<and> (\<exists>response. net (Get (base_url @ ''/polls/'' @ str_of_int poll_id @ ''/results'') [])
                           = Inr response
                 \<and> status_code response = 200 \<and> body_json response = Inr results_data))
     \<and> (\<not> success \<longrightarrow> results_data = JNull)
     \<and> (\<not> success
          \<and> (\<nexists>response kvs.
                 net (Get (base_url @ ''/polls/'' @ str_of_int poll_id @ ''/results'') []) = Inr response
                 \<and> status_code response \<noteq> 200 \<and> status_code response \<noteq> 404
                 \<and> body_json response = Inr (JObj kvs) \<and> map_of kvs ''detail'' = Some JNull)
          \<longrightarrow> error_message \<noteq> JNull)"
proof (cases "poll_id = 0 \<or> poll_id \<le> 0")
  case True
  then have "fst (get_poll_results_with_error_handling poll_id base_url net)
               = Inr (False, JNull, JStr ''Poll ID must be a positive integer'')"
    using assms
    by (simp add: get_poll_results_with_error_handling_def Let_def int_to_str_within)
  then show ?thesis by auto
next
  case False
  let ?url = "base_url @ ''/polls/'' @ str_of_int poll_id @ ''/results''"
  show ?thesis
  proof (cases "error_handling_body net ?url")
    case (Inl e)
    obtain m where "error_handling_except e = Inr (False, JNull, JStr m)"
      using error_handling_except_message by blast
    with False Inl have "fst (get_poll_results_with_error_handling poll_id base_url net)
               = Inr (False, JNull, JStr m)"
      using assms
      by (simp add: get_poll_results_with_error_handling_def Let_def int_to_str_within)
    then show ?thesis by auto
  next
    case (Inr t)
    then have "fst (get_poll_results_with_error_handling poll_id base_url net) = Inr t"
      using False assms
      by (simp add: get_poll_results_with_error_handling_def Let_def int_to_str_within)
    moreover from Inr have "\<exists>success results_data error_message.
       t = (success, results_data, error_message)
     \<and> (success \<longrightarrow> error_message = JNull
          \<and> (\<exists>response. net (Get ?url []) = Inr response
                 \<and> status_code response = 200 \<and> body_json response = Inr results_data))
     \<and> (\<not> success \<longrightarrow> results_data = JNull)
     \<and> (\<not> success
          \<and> (\<nexists>response kvs. net (Get ?url []) = Inr response
                 \<and> status_code response \<noteq> 200 \<and> status_code response \<noteq> 404
                 \<and> body_json response = Inr (JObj kvs) \<and> map_of kvs ''detail'' = Some JNull)
          \<longrightarrow> error_message \<noteq> JNull)"
      by (auto simp: error_handling_body_def Let_def
          split: sum.splits if_splits json.splits option.splits)
    ultimately show ?thesis by metis
  qed
qed

theorem success_flag_witness:
  "fst (get_poll_results_with_error_handling 1 ''http://localhost:8000''
     (const_server \<lparr>status_code = 200, reason = ''OK'', resp_url = [],
                    body_json = Inr (JObj [(''poll_id'', JInt 1), (''results'', JArr [])])\<rparr>))
     = Inr (True, JObj [(''poll_id'', JInt 1), (''results'', JArr [])], JNull)
   \<and> fst (get_poll_results_with_error_handling 1 ''http://localhost:8000''
     (unreachable_server (ConnectionError ''connection refused'')))
     = Inr (False, JNull, JStr ''Connection error: Could not connect to the server'')"
proof -
  have lim: "within_str_limit 1"
    by (simp add: within_str_limit_def max_str_digits_def str_of_nat.simps)
  show ?thesis
    using
      success_flag [OF lim, of "''http://localhost:8000''"
        "const_server \<lparr>status_code = 200, reason = ''OK'', resp_url = [],
                      body_json = Inr (JObj [(''poll_id'', JInt 1), (''results'', JArr [])])\<rparr>"]
      success_flag [OF lim, of "''http://localhost:8000''"
        "unreachable_server (ConnectionError ''connection refused'')"]
    by (simp add: get_poll_results_with_error_handling_def Let_def error_handling_body_def
        error_handling_except_def const_server_def unreachable_server_def
        int_to_str_within [OF lim])
qed

end
